theory Spec2Isabelle
  imports Main "HOL-Library.Word" "HOL-Library.Sublist"
begin

section \<open>The test-run dashboard of \<^verbatim>\<open>src/app/page.tsx\<close>\<close>

text \<open>
  The component \<^verbatim>\<open>Home\<close> keeps five pieces of React state: the list of test cases, the
  active filter and the three form fields. Every handler is modelled as a function from
  the state before the event to the state after it. The readings of the clock
  (\<^verbatim>\<open>Date.now()\<close> and \<^verbatim>\<open>new Date().toISOString()\<close>) are inputs of the handlers
  that take them.
\<close>

subsection \<open>Strings\<close>

text \<open>
  A JavaScript string is a sequence of 16-bit code units. \<^verbatim>\<open>trim\<close> removes the
  white space and line terminators of ECMAScript from both ends; all of them are single
  code units.
\<close>

type_synonym jsstring = "16 word list"

definition ascii :: "string \<Rightarrow> jsstring" where
  "ascii cs = map (\<lambda>c. of_nat (of_char c)) cs"

definition isWhiteSpace :: "16 word \<Rightarrow> bool" where
  "isWhiteSpace c \<longleftrightarrow>
     c = 0x0009 \<or> c = 0x000A \<or> c = 0x000B \<or> c = 0x000C \<or> c = 0x000D \<or>
     c = 0x0020 \<or> c = 0x00A0 \<or> c = 0x1680 \<or> (0x2000 \<le> c \<and> c \<le> 0x200A) \<or>
     c = 0x2028 \<or> c = 0x2029 \<or> c = 0x202F \<or> c = 0x205F \<or> c = 0x3000 \<or>
     c = 0xFEFF"

definition trim :: "jsstring \<Rightarrow> jsstring" where
  "trim s = rev (dropWhile isWhiteSpace (rev (dropWhile isWhiteSpace s)))"

text \<open>\<^verbatim>\<open>s.slice(0, n)\<close> for a non-negative \<^verbatim>\<open>n\<close>.\<close>

definition slice0 :: "nat \<Rightarrow> jsstring \<Rightarrow> jsstring" where
  "slice0 n s = take n s"

text \<open>
  \<^verbatim>\<open>s.replace(p, r)\<close> for a pattern and a replacement of one code unit each: only the
  first occurrence is replaced.
\<close>

fun replace1 :: "16 word \<Rightarrow> 16 word \<Rightarrow> jsstring \<Rightarrow> jsstring" where
  "replace1 p r [] = []"
| "replace1 p r (c # cs) = (if c = p then r # cs else c # replace1 p r cs)"

text \<open>
  The template literal \<^verbatim>\<open>`${Date.now()}`\<close> renders an integral number of milliseconds
  in decimal, with a minus sign before a negative one.
\<close>

definition digit :: "nat \<Rightarrow> 16 word" where
  "digit d = of_nat (48 + d)"

fun digits :: "nat \<Rightarrow> jsstring" where
  "digits n = (if n < 10 then [digit n] else digits (n div 10) @ [digit (n mod 10)])"

declare digits.simps [simp del]

definition numberToString :: "int \<Rightarrow> jsstring" where
  "numberToString n = (if n < 0 then 0x002D # digits (nat (- n)) else digits (nat n))"

subsection \<open>Data\<close>

datatype TestStatus = Pending | Pass | Fail

record TestCase =
  id_t :: jsstring
  title :: jsstring
  description :: jsstring
  expected :: jsstring
  status :: TestStatus
  lastRun :: "jsstring option"

datatype FilterOption = Filter_all | Filter_status TestStatus

record TestStats =
  total :: nat
  pending :: nat
  pass :: nat
  fail :: nat

record home =
  tests :: "TestCase list"
  filter_st :: FilterOption
  title_st :: jsstring
  description_st :: jsstring
  expected_st :: jsstring

definition defaultTests :: "TestCase list" where
  "defaultTests =
    [\<lparr>id_t = ascii ''auth-flow'',
      title = ascii ''Authentication Flow'',
      description = ascii ''Validate that a new user can register, receive a confirmation email, and sign in successfully.'',
      expected = ascii ''User lands on dashboard with a welcome toast and access token stored.'',
      status = Pending,
      lastRun = None\<rparr>,
     \<lparr>id_t = ascii ''payments'',
      title = ascii ''Payment Capture'',
      description = ascii ''Charge an existing customer for a saved card using the hosted checkout form.'',
      expected = ascii ''Charge completes with status `succeeded` in Stripe dashboard.'',
      status = Pass,
      lastRun = Some (ascii ''2024-04-08 14:12'')\<rparr>,
     \<lparr>id_t = ascii ''webhooks'',
      title = ascii ''Webhook Retries'',
      description = ascii ''Force a webhook to fail once and confirm the retry logic delivers the payload on the second attempt.'',
      expected = ascii ''Delivery log shows two attempts and final status `delivered`.'',
      status = Fail,
      lastRun = Some (ascii ''2024-04-07 09:34'')\<rparr>]"

definition initial :: home where
  "initial = \<lparr>tests = defaultTests, filter_st = Filter_all,
              title_st = [], description_st = [], expected_st = []\<rparr>"

subsection \<open>Derived values\<close>

definition filteredTests :: "home \<Rightarrow> TestCase list" where
  "filteredTests s =
     (case filter_st s of
        Filter_all \<Rightarrow> tests s
      | Filter_status f \<Rightarrow> filter (\<lambda>test. status test = f) (tests s))"

definition bump :: "TestStatus \<Rightarrow> TestStats \<Rightarrow> TestStats" where
  "bump st acc =
     (case st of
        Pending \<Rightarrow> acc\<lparr>pending := pending acc + 1\<rparr>
      | Pass \<Rightarrow> acc\<lparr>pass := pass acc + 1\<rparr>
      | Fail \<Rightarrow> acc\<lparr>fail := fail acc + 1\<rparr>)"

definition reducer :: "TestStats \<Rightarrow> TestCase \<Rightarrow> TestStats" where
  "reducer acc test = bump (status test) (acc\<lparr>total := total acc + 1\<rparr>)"

definition stats :: "home \<Rightarrow> TestStats" where
  "stats s = foldl reducer \<lparr>total = 0, pending = 0, pass = 0, fail = 0\<rparr> (tests s)"

subsection \<open>Handlers\<close>

definition orDefault :: "jsstring \<Rightarrow> jsstring \<Rightarrow> jsstring" where
  "orDefault s d = (if s = [] then d else s)"

definition newTest :: "int \<Rightarrow> home \<Rightarrow> TestCase" where
  "newTest now s =
     \<lparr>id_t = numberToString now,
      title = trim (title_st s),
      description = orDefault (trim (description_st s)) (ascii ''No description provided.''),
      expected = orDefault (trim (expected_st s)) (ascii ''No expected result documented.''),
      status = Pending,
      lastRun = None\<rparr>"

definition handleAddTest :: "int \<Rightarrow> home \<Rightarrow> home" where
  "handleAddTest now s =
     (if trim (title_st s) = [] then s
      else s\<lparr>tests := newTest now s # tests s,
             title_st := [],
             description_st := [],
             expected_st := [],
             filter_st := Filter_all\<rparr>)"

definition stamp :: "jsstring \<Rightarrow> jsstring" where
  "stamp isoNow = replace1 0x0054 0x0020 (slice0 16 isoNow)"

text \<open>
  The callback of \<^verbatim>\<open>current.map\<close> evaluates \<^verbatim>\<open>new Date()\<close> for every test whose id
  matches, in the order of the list. The handler therefore takes the successive readings
  of the clock: \<open>clock n\<close> is the result of the evaluation number \<open>n\<close> (from 0) of
  \<^verbatim>\<open>new Date().toISOString()\<close> while the list is mapped.
\<close>

fun updateTests ::
  "(nat \<Rightarrow> jsstring) \<Rightarrow> nat \<Rightarrow> jsstring \<Rightarrow> TestStatus \<Rightarrow> TestCase list \<Rightarrow> TestCase list" where
  "updateTests clock n i st [] = []"
| "updateTests clock n i st (test # rest) =
     (if id_t test = i
      then test\<lparr>status := st, lastRun := Some (stamp (clock n))\<rparr> #
           updateTests clock (Suc n) i st rest
      else test # updateTests clock n i st rest)"

definition handleUpdateStatus ::
  "(nat \<Rightarrow> jsstring) \<Rightarrow> jsstring \<Rightarrow> TestStatus \<Rightarrow> home \<Rightarrow> home" where
  "handleUpdateStatus clock i st s = s\<lparr>tests := updateTests clock 0 i st (tests s)\<rparr>"

definition handleRemove :: "jsstring \<Rightarrow> home \<Rightarrow> home" where
  "handleRemove i s = s\<lparr>tests := filter (\<lambda>test. id_t test \<noteq> i) (tests s)\<rparr>"

text \<open>
  The events of the page: typing into a form field, choosing a filter, submitting the
  form (with the reading of \<^verbatim>\<open>Date.now()\<close>), pressing one of the three status buttons
  of a card (with the readings of \<^verbatim>\<open>toISOString()\<close>) and pressing its remove button.
\<close>

datatype event =
    SetTitle jsstring
  | SetDescription jsstring
  | SetExpected jsstring
  | SetFilter FilterOption
  | Submit int
  | UpdateStatus "nat \<Rightarrow> jsstring" jsstring TestStatus
  | Remove jsstring

fun step :: "home \<Rightarrow> event \<Rightarrow> home" where
  "step s (SetTitle v) = s\<lparr>title_st := v\<rparr>"
| "step s (SetDescription v) = s\<lparr>description_st := v\<rparr>"
| "step s (SetExpected v) = s\<lparr>expected_st := v\<rparr>"
| "step s (SetFilter f) = s\<lparr>filter_st := f\<rparr>"
| "step s (Submit now) = handleAddTest now s"
| "step s (UpdateStatus clock i st) = handleUpdateStatus clock i st s"
| "step s (Remove i) = handleRemove i s"

definition run :: "event list \<Rightarrow> home" where
  "run evs = foldl step initial evs"

subsection \<open>Traces\<close>

text \<open>
  The clock readings of the form submissions of a trace, used to state when the ids of
  the state it reaches are pairwise distinct.
\<close>

fun submitted :: "event list \<Rightarrow> int list" where
  "submitted [] = []"
| "submitted (Submit now # evs) = now # submitted evs"
| "submitted (e # evs) = submitted evs"

section \<open>Properties\<close>

subsection \<open>Strings and identifiers\<close>

lemma ascii_eq_Nil [simp]: "ascii cs = [] \<longleftrightarrow> cs = []"
  by (simp add: ascii_def)

lemma ascii_inject [simp]: "ascii a = ascii b \<longleftrightarrow> a = b"
proof -
  have *: "char_of (unat (of_nat (of_char c) :: 16 word)) = c" for c :: char
  proof -
    have "of_char c < (65536 :: nat)"
      using nat_of_char_less_256 [of c] by linarith
    then have "unat (of_nat (of_char c) :: 16 word) = of_char c"
      by (simp add: unat_of_nat)
    then show ?thesis by simp
  qed
  have "inj (\<lambda>c. of_nat (of_char c) :: 16 word)"
    by (rule inj_on_inverseI [where g = "\<lambda>w. char_of (unat w)"]) (simp add: *)
  then show ?thesis by (simp add: ascii_def inj_map_eq_map)
qed

lemma replace1_first: "p \<notin> set d \<Longrightarrow> replace1 p r (d @ p # xs) = d @ r # xs"
  by (induction d) auto

lemma stamp_iso:
  assumes "length d = 10" and "0x0054 \<notin> set d" and "length hm = 5"
  shows "stamp (d @ 0x0054 # hm @ rest) = d @ 0x0020 # hm"
proof -
  from assms(1,3) have "slice0 16 (d @ 0x0054 # hm @ rest) = d @ 0x0054 # hm"
    by (simp add: slice0_def)
  with assms(2) show ?thesis
    by (simp add: stamp_def replace1_first)
qed

lemma stamp_example: "stamp (ascii ''2024-04-09T10:15:30.123Z'') = ascii ''2024-04-09 10:15''"
  by (simp add: stamp_def slice0_def ascii_def)

lemma stamp_example_15: "stamp (ascii ''2024-04-09T10:15:59.999Z'') = ascii ''2024-04-09 10:15''"
  by (simp add: stamp_def slice0_def ascii_def)

lemma stamp_example_16: "stamp (ascii ''2024-04-09T10:16:00.000Z'') = ascii ''2024-04-09 10:16''"
  by (simp add: stamp_def slice0_def ascii_def)

lemma numberToString_example: "numberToString 1712586720000 = ascii ''1712586720000''"
  by (simp add: numberToString_def digits.simps digit_def ascii_def)

lemma trim_logout: "trim (ascii ''Logout test'') = ascii ''Logout test''"
  by (simp add: trim_def ascii_def isWhiteSpace_def)

lemma trim_login: "trim (ascii ''Login test'') = ascii ''Login test''"
  by (simp add: trim_def ascii_def isWhiteSpace_def)

text \<open>
  The decimal rendering is injective, and no rendering of a number is the id of a sample
  test: it ends with a digit.
\<close>

lemma unat_digit: "d < 10 \<Longrightarrow> unat (digit d) = 48 + d"
  unfolding digit_def by (simp only: unat_of_nat) simp

lemma digit_inject: "a < 10 \<Longrightarrow> b < 10 \<Longrightarrow> digit a = digit b \<Longrightarrow> a = b"
  by (metis unat_digit add_left_cancel)

lemma digits_not_Nil: "digits n \<noteq> []" "[] \<noteq> digits n"
  by (subst digits.simps, simp)+

lemma last_digits: "last (digits n) = digit (n mod 10)"
  by (subst digits.simps) simp

lemma butlast_digits: "butlast (digits n) = (if n < 10 then [] else digits (n div 10))"
  by (subst digits.simps) simp

lemma digits_inject: "digits n = digits m \<Longrightarrow> n = m"
proof (induction n arbitrary: m rule: digits.induct)
  case (1 n)
  from "1.prems" have l: "digit (n mod 10) = digit (m mod 10)"
    by (metis last_digits)
  then have md: "n mod 10 = m mod 10"
    by (intro digit_inject) simp_all
  from "1.prems" have b: "butlast (digits n) = butlast (digits m)" by simp
  show ?case
  proof (cases "n < 10")
    case True
    with b have "m < 10"
      by (auto simp: butlast_digits digits_not_Nil split: if_splits)
    with True md show ?thesis by simp
  next
    case False
    with b have m: "\<not> m < 10" and "digits (n div 10) = digits (m div 10)"
      by (auto simp: butlast_digits digits_not_Nil split: if_splits)
    with False "1.IH" have "n div 10 = m div 10" by blast
    with md show ?thesis by (metis div_mult_mod_eq)
  qed
qed

lemma hd_digits_not_minus: "hd (digits n) \<noteq> 0x002D"
proof (induction n rule: digits.induct)
  case (1 n)
  show ?case
  proof (cases "n < 10")
    case True
    then have "unat (hd (digits n)) = 48 + n"
      by (subst digits.simps) (simp add: unat_digit)
    then show ?thesis by auto
  next
    case False
    with 1 have "hd (digits (n div 10)) \<noteq> 0x002D" by simp
    with False show ?thesis
      by (subst digits.simps) (simp add: digits_not_Nil)
  qed
qed

lemma numberToString_inject: "numberToString a = numberToString b \<Longrightarrow> a = b"
proof -
  assume eq: "numberToString a = numberToString b"
  have neg: "x < 0 \<Longrightarrow> hd (numberToString x) = 0x002D" for x
    by (simp add: numberToString_def)
  have pos: "\<not> x < 0 \<Longrightarrow> hd (numberToString x) \<noteq> 0x002D" for x
    by (simp add: numberToString_def hd_digits_not_minus)
  from eq neg pos have same: "a < 0 \<longleftrightarrow> b < 0" by metis
  show "a = b"
  proof (cases "a < 0")
    case True
    with same eq have "digits (nat (- a)) = digits (nat (- b))"
      by (simp add: numberToString_def)
    then have "nat (- a) = nat (- b)" by (rule digits_inject)
    with True same show ?thesis by simp
  next
    case False
    with same eq have "digits (nat a) = digits (nat b)"
      by (simp add: numberToString_def)
    then have "nat a = nat b" by (rule digits_inject)
    with False same show ?thesis by simp
  qed
qed

lemma last_numberToString: "\<exists>d<10. last (numberToString n) = digit d"
proof (cases "n < 0")
  case True
  then have "last (numberToString n) = digit (nat (- n) mod 10)"
    by (simp add: numberToString_def digits_not_Nil last_digits)
  then show ?thesis by (intro exI [of _ "nat (- n) mod 10"]) simp
next
  case False
  then have "last (numberToString n) = digit (nat n mod 10)"
    by (simp add: numberToString_def last_digits)
  then show ?thesis by (intro exI [of _ "nat n mod 10"]) simp
qed

lemma ids_defaultTests:
  "map id_t defaultTests = [ascii ''auth-flow'', ascii ''payments'', ascii ''webhooks'']"
  by (simp add: defaultTests_def)

lemma numberToString_not_default: "numberToString n \<notin> set (map id_t defaultTests)"
proof
  assume "numberToString n \<in> set (map id_t defaultTests)"
  then have "last (numberToString n) \<in> {0x0077, 0x0073}"
    by (auto simp: ids_defaultTests ascii_def)
  moreover from last_numberToString obtain d where "d < 10" "last (numberToString n) = digit d"
    by blast
  then have "unat (last (numberToString n)) = 48 + d" "d < 10"
    by (simp_all add: unat_digit)
  ultimately show False by auto
qed

subsection \<open>The list of tests\<close>

lemma tests_initial: "tests initial = defaultTests"
  by (simp add: initial_def)

lemma set_ids_initial:
  "id_t ` set (tests initial) = {ascii ''auth-flow'', ascii ''payments'', ascii ''webhooks''}"
proof -
  have "id_t ` set (tests initial) = set (map id_t defaultTests)"
    by (simp add: tests_initial)
  then show ?thesis by (simp add: ids_defaultTests)
qed

lemma distinct_ids_initial: "distinct (map id_t (tests initial))"
  by (simp add: tests_initial ids_defaultTests)

lemma foldl_reducer_total: "total (foldl reducer acc ts) = total acc + length ts"
  by (induction ts arbitrary: acc) (simp_all add: reducer_def bump_def split: TestStatus.splits)

lemma foldl_reducer_pending:
  "pending (foldl reducer acc ts) = pending acc + length (filter (\<lambda>t. status t = Pending) ts)"
  by (induction ts arbitrary: acc) (simp_all add: reducer_def bump_def split: TestStatus.splits)

lemma foldl_reducer_pass:
  "pass (foldl reducer acc ts) = pass acc + length (filter (\<lambda>t. status t = Pass) ts)"
  by (induction ts arbitrary: acc) (simp_all add: reducer_def bump_def split: TestStatus.splits)

lemma foldl_reducer_fail:
  "fail (foldl reducer acc ts) = fail acc + length (filter (\<lambda>t. status t = Fail) ts)"
  by (induction ts arbitrary: acc) (simp_all add: reducer_def bump_def split: TestStatus.splits)

lemma status_partition:
  "length (filter (\<lambda>t. status t = Pending) ts) + length (filter (\<lambda>t. status t = Pass) ts)
     + length (filter (\<lambda>t. status t = Fail) ts) = length ts"
proof (induction ts)
  case Nil
  show ?case by simp
next
  case (Cons t ts)
  then show ?case by (cases "status t") simp_all
qed

lemma stats_total: "total (stats s) = length (tests s)"
  by (simp add: stats_def foldl_reducer_total)

text \<open>
  Mapping the list keeps its length and its ids. It returns the list as it is when no test
  has the id; in a list with pairwise distinct ids it reads the clock once and replaces
  the one position that has the id.
\<close>

lemma tests_handleUpdateStatus:
  "tests (handleUpdateStatus clock i st s) = updateTests clock 0 i st (tests s)"
  by (simp add: handleUpdateStatus_def)

lemma length_updateTests [simp]: "length (updateTests clock n i st ts) = length ts"
  by (induction ts arbitrary: n) simp_all

lemma ids_updateTests [simp]: "map id_t (updateTests clock n i st ts) = map id_t ts"
  by (induction ts arbitrary: n) simp_all

lemma updateTests_absent: "i \<notin> id_t ` set ts \<Longrightarrow> updateTests clock n i st ts = ts"
  by (induction ts arbitrary: n) auto

lemma updateTests_distinct:
  assumes "distinct (map id_t ts)" and "k < length ts"
  shows "updateTests clock n (id_t (ts ! k)) st ts =
           ts[k := (ts ! k)\<lparr>status := st, lastRun := Some (stamp (clock n))\<rparr>]"
  using assms
proof (induction ts arbitrary: k)
  case Nil
  then show ?case by simp
next
  case (Cons t ts)
  show ?case
  proof (cases k)
    case 0
    from Cons.prems have "id_t t \<notin> id_t ` set ts" by simp
    then have "updateTests clock (Suc n) (id_t t) st ts = ts"
      by (rule updateTests_absent)
    with 0 show ?thesis by simp
  next
    case (Suc j)
    with Cons.prems have j: "j < length ts" and d: "distinct (map id_t ts)"
      by simp_all
    from Cons.prems j have "id_t t \<noteq> id_t (ts ! j)" by auto
    with Suc Cons.IH [OF d j] show ?thesis by simp
  qed
qed

lemma handleUpdateStatus_distinct:
  assumes "distinct (map id_t (tests s))" and "k < length (tests s)"
  shows "handleUpdateStatus clock (id_t (tests s ! k)) st s =
           s\<lparr>tests := (tests s)[k := (tests s ! k)\<lparr>status := st, lastRun := Some (stamp (clock 0))\<rparr>]\<rparr>"
  using updateTests_distinct [OF assms] by (simp add: handleUpdateStatus_def)

text \<open>
  Removal by an id that no test has returns the state it was given. In a list with
  pairwise distinct ids, removal by the id at a position deletes that position only, and
  the total falls by one.
\<close>

lemma handleRemove_absent:
  assumes "i \<notin> id_t ` set (tests s)"
  shows "handleRemove i s = s"
proof -
  have "filter (\<lambda>test. id_t test \<noteq> i) (tests s) = tests s"
    using assms by (intro filter_True) auto
  then show ?thesis by (simp add: handleRemove_def)
qed

lemma filter_neq_distinct:
  assumes "distinct (map f xs)" and "k < length xs"
  shows "filter (\<lambda>x. f x \<noteq> f (xs ! k)) xs = take k xs @ drop (Suc k) xs"
  using assms
proof (induction xs arbitrary: k)
  case Nil
  then show ?case by simp
next
  case (Cons x xs)
  show ?case
  proof (cases k)
    case 0
    from Cons.prems have "f x \<notin> f ` set xs" by simp
    then have "\<forall>y\<in>set xs. f y \<noteq> f x" by (metis imageI)
    then have "filter (\<lambda>y. f y \<noteq> f x) xs = xs" by (intro filter_True) auto
    with 0 show ?thesis by simp
  next
    case (Suc j)
    with Cons.prems have j: "j < length xs" and d: "distinct (map f xs)" by simp_all
    from Cons.prems j have "f x \<noteq> f (xs ! j)" by auto
    with Suc Cons.IH [OF d j] show ?thesis by simp
  qed
qed

lemma handleRemove_present_distinct:
  assumes "distinct (map id_t (tests s))" and "k < length (tests s)"
  shows "tests (handleRemove (id_t (tests s ! k)) s) = take k (tests s) @ drop (Suc k) (tests s)"
    and "Suc (total (stats (handleRemove (id_t (tests s ! k)) s))) = total (stats s)"
proof -
  show *: "tests (handleRemove (id_t (tests s ! k)) s) = take k (tests s) @ drop (Suc k) (tests s)"
    using filter_neq_distinct [OF assms] by (simp add: handleRemove_def)
  from assms(2) show "Suc (total (stats (handleRemove (id_t (tests s ! k)) s))) = total (stats s)"
    by (simp add: stats_total *)
qed

text \<open>
  Updates and removals keep the ids pairwise distinct; a submission keeps them so when
  the rendering of its clock reading is not among the ids.
\<close>

lemma distinct_ids_handleUpdateStatus:
  "distinct (map id_t (tests s)) \<Longrightarrow> distinct (map id_t (tests (handleUpdateStatus clock i st s)))"
  by (simp add: tests_handleUpdateStatus)

lemma distinct_ids_handleRemove:
  "distinct (map id_t (tests s)) \<Longrightarrow> distinct (map id_t (tests (handleRemove i s)))"
  by (simp add: handleRemove_def distinct_map_filter)

lemma distinct_ids_handleAddTest:
  assumes "distinct (map id_t (tests s))" and "numberToString now \<notin> id_t ` set (tests s)"
  shows "distinct (map id_t (tests (handleAddTest now s)))"
  using assms by (simp add: handleAddTest_def newTest_def)

lemma tests_two_submits:
  "tests (run [SetTitle (ascii ''Login test''), Submit 1712586720000,
               SetTitle (ascii ''Logout test''), Submit 1712586720000]) =
     [newTest 1712586720000 (initial\<lparr>tests := [newTest 1712586720000 (initial\<lparr>title_st := ascii ''Login test''\<rparr>)] @ defaultTests,
                                       title_st := ascii ''Logout test''\<rparr>),
      newTest 1712586720000 (initial\<lparr>title_st := ascii ''Login test''\<rparr>)] @ defaultTests"
  by (simp add: run_def handleAddTest_def trim_login trim_logout initial_def)

lemma id_newTest: "id_t (newTest now s) = numberToString now"
  by (simp add: newTest_def)

subsection \<open>Reachable states\<close>

text \<open>
  When the clock readings of the submissions of a trace are pairwise distinct, the ids of
  the state it reaches are pairwise distinct.
\<close>

lemma submitted_append: "submitted (xs @ ys) = submitted xs @ submitted ys"
  by (induction xs rule: submitted.induct) simp_all

lemma run_snoc: "run (evs @ [e]) = step (run evs) e"
  by (simp add: run_def)

lemma ids_run:
  "distinct (submitted evs) \<Longrightarrow>
   distinct (map id_t (tests (run evs))) \<and>
   id_t ` set (tests (run evs)) \<subseteq> set (map id_t defaultTests) \<union> numberToString ` set (submitted evs)"
proof (induction evs rule: rev_induct)
  case Nil
  show ?case using distinct_ids_initial by (simp add: run_def tests_initial)
next
  case (snoc e evs)
  let ?s = "run evs"
  from snoc.prems have d: "distinct (submitted evs)"
    by (simp add: submitted_append)
  note IH = snoc.IH [OF d]
  show ?case
  proof (cases e)
    case (Submit now)
    with snoc.prems have fresh: "now \<notin> set (submitted evs)"
      by (simp add: submitted_append)
    have "numberToString now \<notin> id_t ` set (tests ?s)"
    proof
      assume "numberToString now \<in> id_t ` set (tests ?s)"
      with IH have "numberToString now \<in> set (map id_t defaultTests) \<or>
          numberToString now \<in> numberToString ` set (submitted evs)" by blast
      with numberToString_not_default obtain m where "m \<in> set (submitted evs)"
        "numberToString now = numberToString m" by blast
      with fresh show False by (metis numberToString_inject)
    qed
    with IH have dist: "distinct (map id_t (tests (handleAddTest now ?s)))"
      by (intro distinct_ids_handleAddTest) simp_all
    have "id_t ` set (tests (handleAddTest now ?s)) \<subseteq>
        insert (numberToString now) (id_t ` set (tests ?s))"
      by (auto simp: handleAddTest_def id_newTest)
    with IH have "id_t ` set (tests (handleAddTest now ?s)) \<subseteq>
        set (map id_t defaultTests) \<union> insert (numberToString now) (numberToString ` set (submitted evs))"
      by blast
    with dist Submit show ?thesis
      by (simp add: run_snoc submitted_append)
  next
    case (UpdateStatus clock i st)
    have "map id_t (tests (handleUpdateStatus clock i st ?s)) = map id_t (tests ?s)"
      by (simp add: tests_handleUpdateStatus)
    then have "distinct (map id_t (tests (handleUpdateStatus clock i st ?s))) = distinct (map id_t (tests ?s))"
      and "set (map id_t (tests (handleUpdateStatus clock i st ?s))) = set (map id_t (tests ?s))"
      by simp_all
    with IH UpdateStatus show ?thesis
      by (simp add: run_snoc submitted_append)
  next
    case (Remove i)
    have "id_t ` set (tests (handleRemove i ?s)) \<subseteq> id_t ` set (tests ?s)"
      by (auto simp: handleRemove_def)
    with IH have "id_t ` set (tests (handleRemove i ?s)) \<subseteq>
        set (map id_t defaultTests) \<union> numberToString ` set (submitted evs)"
      by blast
    moreover from IH have "distinct (map id_t (tests (handleRemove i ?s)))"
      by (intro distinct_ids_handleRemove) simp
    ultimately show ?thesis using Remove
      by (simp add: run_snoc submitted_append)
  qed (use IH in \<open>simp_all add: run_snoc submitted_append\<close>)
qed

section \<open>The claims\<close>

subsection \<open>Adding a test\<close>

text \<open>
  C1. When the title field is not empty after trimming, submitting the form raises the
  total of the statistics by exactly one, and the view under the filter \<^verbatim>\<open>all\<close> is
  the new record followed by the records that were there, in their order. The new record
  carries the trimmed title.
\<close>

theorem handleAddTest_front:
  assumes "trim (title_st s) \<noteq> []"
  shows "total (stats (handleAddTest now s)) = total (stats s) + 1 \<and>
         filteredTests ((handleAddTest now s)\<lparr>filter_st := Filter_all\<rparr>) =
           newTest now s # filteredTests (s\<lparr>filter_st := Filter_all\<rparr>) \<and>
         title (newTest now s) = trim (title_st s)"
  using assms
  by (simp add: handleAddTest_def stats_total filteredTests_def newTest_def)

theorem handleAddTest_front_witness:
  "trim (title_st (initial\<lparr>title_st := ascii ''Login test''\<rparr>)) \<noteq> [] \<and>
   total (stats (initial\<lparr>title_st := ascii ''Login test''\<rparr>)) = 3 \<and>
   total (stats (handleAddTest 1712586720000 (initial\<lparr>title_st := ascii ''Login test''\<rparr>))) = 4 \<and>
   filteredTests ((handleAddTest 1712586720000 (initial\<lparr>title_st := ascii ''Login test''\<rparr>))\<lparr>filter_st := Filter_all\<rparr>) =
     newTest 1712586720000 (initial\<lparr>title_st := ascii ''Login test''\<rparr>) # defaultTests"
proof -
  have h: "trim (title_st (initial\<lparr>title_st := ascii ''Login test''\<rparr>)) \<noteq> []"
    by (simp add: trim_login)
  have n: "length defaultTests = 3"
    by (simp add: defaultTests_def)
  show ?thesis
    using h n handleAddTest_front [OF h, of 1712586720000]
    by (simp add: stats_total filteredTests_def initial_def)
qed

text \<open>
  C7. When the title field is empty after trimming, submitting the form leaves the whole
  state as it was: the list of tests, the filter and the form fields.
\<close>

theorem handleAddTest_blank_title:
  "trim (title_st s) = [] \<Longrightarrow> handleAddTest now s = s"
  by (simp add: handleAddTest_def)

theorem handleAddTest_blank_title_witness:
  "trim (title_st (initial\<lparr>title_st := ascii '' ''\<rparr>)) = [] \<and>
   handleAddTest 5 (initial\<lparr>title_st := ascii '' ''\<rparr>) = initial\<lparr>title_st := ascii '' ''\<rparr>"
  using handleAddTest_blank_title [of "initial\<lparr>title_st := ascii '' ''\<rparr>" 5]
  by (simp add: trim_def ascii_def isWhiteSpace_def)

text \<open>
  C10. A submission with a title that is not empty after trimming sets the filter to
  \<^verbatim>\<open>all\<close>. The state before any event holds the three sample tests, with the
  statuses pending, pass and fail in this order; the second and the third carry a
  timestamp of their last run although no event has occurred.
\<close>

theorem filter_reset_and_seed:
  "(trim (title_st s) \<noteq> [] \<longrightarrow> filter_st (handleAddTest now s) = Filter_all) \<and>
   run [] = initial \<and>
   tests initial = defaultTests \<and>
   map status defaultTests = [Pending, Pass, Fail] \<and>
   map lastRun defaultTests =
     [None, Some (ascii ''2024-04-08 14:12''), Some (ascii ''2024-04-07 09:34'')]"
  by (simp add: handleAddTest_def run_def tests_initial defaultTests_def)

theorem filter_reset_and_seed_witness:
  "trim (title_st (initial\<lparr>filter_st := Filter_status Fail, title_st := ascii ''Login test''\<rparr>)) \<noteq> [] \<and>
   filter_st (handleAddTest 1712586720000
     (initial\<lparr>filter_st := Filter_status Fail, title_st := ascii ''Login test''\<rparr>)) = Filter_all"
proof -
  have h: "trim (title_st (initial\<lparr>filter_st := Filter_status Fail, title_st := ascii ''Login test''\<rparr>)) \<noteq> []"
    by (simp add: trim_login)
  from h filter_reset_and_seed [where s = "initial\<lparr>filter_st := Filter_status Fail, title_st := ascii ''Login test''\<rparr>"
      and now = 1712586720000]
  show ?thesis by blast
qed

subsection \<open>Views\<close>

text \<open>
  C3. Under the filter \<^verbatim>\<open>all\<close> the view is the list of tests itself; under the filter
  of a status it is the list of the tests with that status, in the order of the list of
  tests, and its elements are exactly the tests with that status. Under any filter the view
  is a subsequence of the list of tests. The view is a value computed from the state: it
  returns no state.
\<close>

theorem filteredTests_view:
  "filteredTests (s\<lparr>filter_st := Filter_all\<rparr>) = tests s \<and>
   filteredTests (s\<lparr>filter_st := Filter_status f\<rparr>) = filter (\<lambda>t. status t = f) (tests s) \<and>
   set (filteredTests (s\<lparr>filter_st := Filter_status f\<rparr>)) = {t \<in> set (tests s). status t = f} \<and>
   subseq (filteredTests s) (tests s)"
  by (simp add: filteredTests_def split: FilterOption.splits)

text \<open>
  C4. The three counts by status add up to the total; the total is the number of tests and
  each count is the number of tests with that status.
\<close>

theorem stats_counts:
  "pending (stats s) + pass (stats s) + fail (stats s) = total (stats s) \<and>
   total (stats s) = length (tests s) \<and>
   pending (stats s) = length (filter (\<lambda>t. status t = Pending) (tests s)) \<and>
   pass (stats s) = length (filter (\<lambda>t. status t = Pass) (tests s)) \<and>
   fail (stats s) = length (filter (\<lambda>t. status t = Fail) (tests s))"
  by (simp add: stats_def foldl_reducer_total foldl_reducer_pending foldl_reducer_pass
      foldl_reducer_fail status_partition)

subsection \<open>Updating a status\<close>

text \<open>
  C2. In the state reached by two submissions with the same clock reading, two different
  records carry one id. Updating the status by that id changes both of them: each gets the
  new status and the timestamp of its own reading of the clock.
\<close>

theorem handleUpdateStatus_duplicate_ids:
  "tests (run [SetTitle (ascii ''Login test''), Submit 1712586720000,
               SetTitle (ascii ''Logout test''), Submit 1712586720000]) ! 0 \<noteq>
   tests (run [SetTitle (ascii ''Login test''), Submit 1712586720000,
               SetTitle (ascii ''Logout test''), Submit 1712586720000]) ! 1 \<and>
   id_t (tests (run [SetTitle (ascii ''Login test''), Submit 1712586720000,
                     SetTitle (ascii ''Logout test''), Submit 1712586720000]) ! 0) =
     numberToString 1712586720000 \<and>
   id_t (tests (run [SetTitle (ascii ''Login test''), Submit 1712586720000,
                     SetTitle (ascii ''Logout test''), Submit 1712586720000]) ! 1) =
     numberToString 1712586720000 \<and>
   lastRun (tests (run [SetTitle (ascii ''Login test''), Submit 1712586720000,
                        SetTitle (ascii ''Logout test''), Submit 1712586720000]) ! 0) = None \<and>
   lastRun (tests (run [SetTitle (ascii ''Login test''), Submit 1712586720000,
                        SetTitle (ascii ''Logout test''), Submit 1712586720000]) ! 1) = None \<and>
   tests (handleUpdateStatus
       (\<lambda>n. if n = 0 then ascii ''2024-04-09T10:15:59.999Z'' else ascii ''2024-04-09T10:16:00.000Z'')
       (numberToString 1712586720000) Pass
       (run [SetTitle (ascii ''Login test''), Submit 1712586720000,
             SetTitle (ascii ''Logout test''), Submit 1712586720000])) ! 0 =
     (tests (run [SetTitle (ascii ''Login test''), Submit 1712586720000,
                  SetTitle (ascii ''Logout test''), Submit 1712586720000]) ! 0)
       \<lparr>status := Pass, lastRun := Some (ascii ''2024-04-09 10:15'')\<rparr> \<and>
   tests (handleUpdateStatus
       (\<lambda>n. if n = 0 then ascii ''2024-04-09T10:15:59.999Z'' else ascii ''2024-04-09T10:16:00.000Z'')
       (numberToString 1712586720000) Pass
       (run [SetTitle (ascii ''Login test''), Submit 1712586720000,
             SetTitle (ascii ''Logout test''), Submit 1712586720000])) ! 1 =
     (tests (run [SetTitle (ascii ''Login test''), Submit 1712586720000,
                  SetTitle (ascii ''Logout test''), Submit 1712586720000]) ! 1)
       \<lparr>status := Pass, lastRun := Some (ascii ''2024-04-09 10:16'')\<rparr>"
proof -
  let ?S = "run [SetTitle (ascii ''Login test''), Submit 1712586720000,
                 SetTitle (ascii ''Logout test''), Submit 1712586720000]"
  let ?c = "\<lambda>n::nat. if n = 0 then ascii ''2024-04-09T10:15:59.999Z'' else ascii ''2024-04-09T10:16:00.000Z''"
  have differ: "tests ?S ! 0 \<noteq> tests ?S ! 1"
    by (simp add: tests_two_submits newTest_def trim_login trim_logout)
  have ids: "id_t (tests ?S ! 0) = numberToString 1712586720000 \<and>
      id_t (tests ?S ! 1) = numberToString 1712586720000"
    by (simp add: tests_two_submits id_newTest)
  have none: "lastRun (tests ?S ! 0) = None \<and> lastRun (tests ?S ! 1) = None"
    by (simp add: tests_two_submits newTest_def)
  have first: "tests (handleUpdateStatus ?c (numberToString 1712586720000) Pass ?S) ! 0 =
      (tests ?S ! 0)\<lparr>status := Pass, lastRun := Some (ascii ''2024-04-09 10:15'')\<rparr>"
    by (simp add: tests_handleUpdateStatus tests_two_submits id_newTest stamp_example_15)
  have second: "tests (handleUpdateStatus ?c (numberToString 1712586720000) Pass ?S) ! 1 =
      (tests ?S ! 1)\<lparr>status := Pass, lastRun := Some (ascii ''2024-04-09 10:16'')\<rparr>"
    by (simp add: tests_handleUpdateStatus tests_two_submits id_newTest stamp_example_16)
  from differ ids none first second show ?thesis by blast
qed

text \<open>
  C9. When no test has the given id, updating the status returns the state it was given.
  The handler has no failing branch: it is a total function of the state.
\<close>

theorem handleUpdateStatus_unknown_id:
  assumes "i \<notin> id_t ` set (tests s)"
  shows "handleUpdateStatus clock i st s = s"
proof -
  from assms have "updateTests clock 0 i st (tests s) = tests s"
    by (rule updateTests_absent)
  then show ?thesis by (simp add: handleUpdateStatus_def)
qed

theorem handleUpdateStatus_unknown_id_witness:
  "ascii ''no-such-test'' \<notin> id_t ` set (tests initial) \<and>
   handleUpdateStatus (\<lambda>n. ascii ''2024-04-09T10:15:30.123Z'') (ascii ''no-such-test'') Pass initial = initial"
proof -
  have h: "ascii ''no-such-test'' \<notin> id_t ` set (tests initial)"
    by (simp add: set_ids_initial)
  from h handleUpdateStatus_unknown_id [OF h] show ?thesis by simp
qed

subsection \<open>The timestamp of the last run\<close>

text \<open>
  C6, as amended. A record made by a submission has the status pending and no timestamp;
  the submission puts it before the records that were there and leaves them as they were.
  A removal leaves a subsequence of the list, and typing or choosing a filter leaves the
  list as it was. In a list with pairwise distinct ids, updating the status by the id of a
  record replaces that one record: it gets the chosen status, whatever its status was, and
  the timestamp of the clock reading, and every other record stays as it was; updating by
  an id that no record has leaves the list as it was. The timestamp of a clock reading
  made of a date of ten code units, the letter T, five code units of hours and minutes and
  a remainder is the date, a space and the hours and minutes. The second and the third
  sample test carry a timestamp in the initial state.
\<close>

theorem lastRun_lifecycle:
  "status (newTest now s) = Pending \<and> lastRun (newTest now s) = None \<and>
   (trim (title_st s) \<noteq> [] \<longrightarrow> tests (handleAddTest now s) = newTest now s # tests s) \<and>
   (trim (title_st s) = [] \<longrightarrow> tests (handleAddTest now s) = tests s) \<and>
   subseq (tests (handleRemove i s)) (tests s) \<and>
   (distinct (map id_t (tests s)) \<and> k < length (tests s) \<longrightarrow>
      tests (handleUpdateStatus clock (id_t (tests s ! k)) st s) =
        (tests s)[k := (tests s ! k)\<lparr>status := st, lastRun := Some (stamp (clock 0))\<rparr>]) \<and>
   (i \<notin> id_t ` set (tests s) \<longrightarrow> tests (handleUpdateStatus clock i st s) = tests s) \<and>
   (length d = 10 \<and> 0x0054 \<notin> set d \<and> length hm = 5 \<longrightarrow>
      stamp (d @ 0x0054 # hm @ rest) = d @ 0x0020 # hm) \<and>
   tests (step s (SetTitle v)) = tests s \<and>
   tests (step s (SetDescription v)) = tests s \<and>
   tests (step s (SetExpected v)) = tests s \<and>
   tests (step s (SetFilter f)) = tests s \<and>
   lastRun (tests initial ! 1) = Some (ascii ''2024-04-08 14:12'') \<and>
   lastRun (tests initial ! 2) = Some (ascii ''2024-04-07 09:34'')"
proof -
  have new: "status (newTest now s) = Pending \<and> lastRun (newTest now s) = None"
    by (simp add: newTest_def)
  have add: "(trim (title_st s) \<noteq> [] \<longrightarrow> tests (handleAddTest now s) = newTest now s # tests s) \<and>
      (trim (title_st s) = [] \<longrightarrow> tests (handleAddTest now s) = tests s)"
    by (simp add: handleAddTest_def)
  have rem: "subseq (tests (handleRemove i s)) (tests s)"
    by (simp add: handleRemove_def)
  have upd: "distinct (map id_t (tests s)) \<and> k < length (tests s) \<longrightarrow>
      tests (handleUpdateStatus clock (id_t (tests s ! k)) st s) =
        (tests s)[k := (tests s ! k)\<lparr>status := st, lastRun := Some (stamp (clock 0))\<rparr>]"
    by (simp add: handleUpdateStatus_distinct)
  have absent: "i \<notin> id_t ` set (tests s) \<longrightarrow> tests (handleUpdateStatus clock i st s) = tests s"
    by (simp add: tests_handleUpdateStatus updateTests_absent)
  have fresh: "length d = 10 \<and> 0x0054 \<notin> set d \<and> length hm = 5 \<longrightarrow>
      stamp (d @ 0x0054 # hm @ rest) = d @ 0x0020 # hm"
    by (simp add: stamp_iso)
  have other: "tests (step s (SetTitle v)) = tests s \<and>
      tests (step s (SetDescription v)) = tests s \<and>
      tests (step s (SetExpected v)) = tests s \<and>
      tests (step s (SetFilter f)) = tests s"
    by simp
  have seed: "lastRun (tests initial ! 1) = Some (ascii ''2024-04-08 14:12'') \<and>
      lastRun (tests initial ! 2) = Some (ascii ''2024-04-07 09:34'')"
    by (simp add: tests_initial defaultTests_def)
  from new add rem upd absent fresh other seed show ?thesis by blast
qed

theorem lastRun_lifecycle_witness:
  "trim (title_st (initial\<lparr>title_st := ascii ''Login test''\<rparr>)) \<noteq> [] \<and>
   tests (handleAddTest 1712586720000 (initial\<lparr>title_st := ascii ''Login test''\<rparr>)) =
     newTest 1712586720000 (initial\<lparr>title_st := ascii ''Login test''\<rparr>) # defaultTests \<and>
   lastRun (newTest 1712586720000 (initial\<lparr>title_st := ascii ''Login test''\<rparr>)) = None \<and>
   distinct (map id_t (tests initial)) \<and>
   (1::nat) < length (tests initial) \<and>
   id_t (tests initial ! 1) = ascii ''payments'' \<and>
   status (tests initial ! 1) = Pass \<and>
   lastRun (tests initial ! 1) = Some (ascii ''2024-04-08 14:12'') \<and>
   tests (handleUpdateStatus (\<lambda>n. ascii ''2024-04-09T10:15:30.123Z'') (ascii ''payments'') Pass initial) =
     (tests initial)[1 := (tests initial ! 1)\<lparr>status := Pass, lastRun := Some (ascii ''2024-04-09 10:15'')\<rparr>] \<and>
   ascii ''no-such-test'' \<notin> id_t ` set (tests initial) \<and>
   tests (handleUpdateStatus (\<lambda>n. ascii ''2024-04-09T10:15:30.123Z'') (ascii ''no-such-test'') Pass initial) =
     tests initial \<and>
   length (ascii ''2024-04-09'') = 10 \<and>
   0x0054 \<notin> set (ascii ''2024-04-09'') \<and>
   length (ascii ''10:15'') = 5 \<and>
   stamp (ascii ''2024-04-09'' @ 0x0054 # ascii ''10:15'' @ ascii '':30.123Z'') =
     ascii ''2024-04-09'' @ 0x0020 # ascii ''10:15''"
proof -
  let ?s = "initial\<lparr>title_st := ascii ''Login test''\<rparr>"
  let ?c = "\<lambda>n::nat. ascii ''2024-04-09T10:15:30.123Z''"
  note add = lastRun_lifecycle [where now = 1712586720000 and s = ?s]
  note upd = lastRun_lifecycle [where s = initial and k = 1 and clock = ?c and st = Pass
      and i = "ascii ''no-such-test''" and d = "ascii ''2024-04-09''" and hm = "ascii ''10:15''"
      and rest = "ascii '':30.123Z''"]
  have h: "trim (title_st ?s) \<noteq> []"
    by (simp add: trim_login)
  have r: "(1::nat) < length (tests initial) \<and> id_t (tests initial ! 1) = ascii ''payments'' \<and>
      status (tests initial ! 1) = Pass \<and> lastRun (tests initial ! 1) = Some (ascii ''2024-04-08 14:12'')"
    by (simp add: tests_initial defaultTests_def)
  have a: "tests (handleAddTest 1712586720000 ?s) = newTest 1712586720000 ?s # defaultTests \<and>
      lastRun (newTest 1712586720000 ?s) = None"
    using add h by (simp add: tests_initial)
  from upd distinct_ids_initial r
  have "tests (handleUpdateStatus ?c (id_t (tests initial ! 1)) Pass initial) =
      (tests initial)[1 := (tests initial ! 1)\<lparr>status := Pass, lastRun := Some (stamp (?c 0))\<rparr>]"
    by blast
  with r have u: "tests (handleUpdateStatus ?c (ascii ''payments'') Pass initial) =
      (tests initial)[1 := (tests initial ! 1)\<lparr>status := Pass, lastRun := Some (ascii ''2024-04-09 10:15'')\<rparr>]"
    by (simp add: stamp_example)
  have n: "ascii ''no-such-test'' \<notin> id_t ` set (tests initial)"
    by (simp add: set_ids_initial)
  with upd have n': "tests (handleUpdateStatus ?c (ascii ''no-such-test'') Pass initial) = tests initial"
    by blast
  have shape: "length (ascii ''2024-04-09'') = 10 \<and> 0x0054 \<notin> set (ascii ''2024-04-09'') \<and>
      length (ascii ''10:15'') = 5"
    by (simp add: ascii_def)
  with upd have st: "stamp (ascii ''2024-04-09'' @ 0x0054 # ascii ''10:15'' @ ascii '':30.123Z'') =
      ascii ''2024-04-09'' @ 0x0020 # ascii ''10:15''"
    by blast
  from h a distinct_ids_initial r u n n' shape st show ?thesis by blast
qed

text \<open>
  The sentence of the spec has no exception for the sample tests: in the state before any
  event, so before any update of a status, the second test carries a timestamp.
\<close>

theorem seeded_lastRun_without_update:
  "run [] = initial \<and>
   status (tests (run []) ! 1) = Pass \<and>
   lastRun (tests (run []) ! 1) = Some (ascii ''2024-04-08 14:12'')"
  by (simp add: run_def tests_initial defaultTests_def)

subsection \<open>Identifiers and removal\<close>

text \<open>
  C5. The id of a new record is the decimal rendering of the clock reading of its
  submission. Two submissions with the same reading give two records with the same id:
  from the initial state, the trace below reaches a list of tests whose ids are not
  pairwise distinct.
\<close>

theorem same_millisecond_duplicate_ids:
  "\<not> distinct (map id_t (tests (run [SetTitle (ascii ''Login test''), Submit 1712586720000,
                                      SetTitle (ascii ''Logout test''), Submit 1712586720000])))"
  by (simp add: tests_two_submits id_newTest)

text \<open>
  C8. In the state reached by the same trace two records carry the id of the clock
  reading. Removing by that id deletes both: the total falls from five to three.
\<close>

theorem handleRemove_duplicate_ids:
  "numberToString 1712586720000 \<in>
     id_t ` set (tests (run [SetTitle (ascii ''Login test''), Submit 1712586720000,
                             SetTitle (ascii ''Logout test''), Submit 1712586720000])) \<and>
   total (stats (run [SetTitle (ascii ''Login test''), Submit 1712586720000,
                      SetTitle (ascii ''Logout test''), Submit 1712586720000])) = 5 \<and>
   total (stats (handleRemove (numberToString 1712586720000)
     (run [SetTitle (ascii ''Login test''), Submit 1712586720000,
           SetTitle (ascii ''Logout test''), Submit 1712586720000]))) = 3 \<and>
   tests (handleRemove (numberToString 1712586720000)
     (run [SetTitle (ascii ''Login test''), Submit 1712586720000,
           SetTitle (ascii ''Logout test''), Submit 1712586720000])) = defaultTests"
proof -
  let ?S = "run [SetTitle (ascii ''Login test''), Submit 1712586720000,
                 SetTitle (ascii ''Logout test''), Submit 1712586720000]"
  have n: "length defaultTests = 3"
    by (simp add: defaultTests_def)
  have keep: "filter (\<lambda>test. id_t test \<noteq> numberToString 1712586720000) defaultTests = defaultTests"
  proof -
    have "\<forall>i\<in>set (map id_t defaultTests). i \<noteq> numberToString 1712586720000"
      by (simp add: ids_defaultTests numberToString_example)
    then show ?thesis by (intro filter_True) simp
  qed
  have r: "tests (handleRemove (numberToString 1712586720000) ?S) = defaultTests"
    by (simp add: handleRemove_def tests_two_submits id_newTest keep)
  have m: "numberToString 1712586720000 \<in> id_t ` set (tests ?S)"
    by (simp add: tests_two_submits id_newTest)
  have t: "total (stats ?S) = 5"
    by (simp add: stats_total tests_two_submits n)
  from r n have t': "total (stats (handleRemove (numberToString 1712586720000) ?S)) = 3"
    by (simp add: stats_total)
  from m t t' r show ?thesis by blast
qed

end
